theory Spec2Isabelle
  imports Complex_Main "HOL-Library.Multiset"
begin

section \<open>Match scoring and recommendation ranking of EVMatch\<close>

text \<open>
  The development embeds the match-scoring code of the backend:
  \<^item> \<^verbatim>\<open>backend/routes/quiz.js\<close>: \<^verbatim>\<open>quizConfig\<close>, \<^verbatim>\<open>calculateMatchScore\<close>,
    \<^verbatim>\<open>generateMatchReasons\<close> and the scoring, sorting and slicing steps of
    \<^verbatim>\<open>getVehicleRecommendations\<close>;
  \<^item> the Vehicle model: \<^verbatim>\<open>vehicleConfig\<close>, the virtual \<^verbatim>\<open>effectivePrice\<close> and the method
    \<^verbatim>\<open>calculateMatchScore\<close>.

  A JavaScript number is modelled as a rational: sums, products, quotients and comparisons
  are exact. The rounding error of IEEE 754 doubles, \<^verbatim>\<open>Infinity\<close> and a division by zero are
  outside the model; \<^verbatim>\<open>NaN\<close> appears only where the Vehicle method produces it from an absent
  preference field. \<^verbatim>\<open>null\<close> and \<^verbatim>\<open>undefined\<close> are \<open>None\<close>; reading a property of
  \<open>None\<close>, or calling a method that the receiver does not have, is the runtime's
  \<^verbatim>\<open>TypeError\<close>.
\<close>

subsection \<open>Data\<close>

type_synonym number = rat

record budget_t =
  budget_min :: number
  budget_max :: number

record preferences =
  budget :: "budget_t option"
  vehicleType :: "string option"
  rangeImportance :: "number option"
  techImportance :: "number option"
  chargingFeatures :: "string list option"

record incentives_t =
  federal :: number
  state :: number
  local :: number

record price_t =
  msrp :: number
  incentives :: incentives_t

record specifications_t =
  range_epa :: number
  charging_dc_max_kw :: number

record vehicle =
  bodyType :: string
  price :: price_t
  specifications :: specifications_t
  techScore :: number
  ecoScore :: number

text \<open>\<^verbatim>\<open>quizConfig\<close>: the fields that scoring, reasons and ranking read.\<close>

record scoring_t =
  budgetWeight :: number
  typeWeight :: number
  rangeWeight :: number
  techWeight :: number
  ecoWeight :: number
  budgetFlexibility :: number
  rangeBaseline :: number
  overBudgetTolerance :: number

record thresholds_t =
  excellentRange :: number
  advancedTech :: number
  ecoFriendly :: number
  fastCharging :: number

text \<open>
  An entry of \<^verbatim>\<open>process.env.ADDITIONAL_MATCH_REASONS\<close>, after the two \<^verbatim>\<open>split\<close> calls:
  \<open>holds v\<close> says that the entry's condition is non-empty and that
  \<^verbatim>\<open>eval(`vehicle.${condition}`)\<close> returns a truthy value on \<open>v\<close> without throwing
  (a condition with side effects is outside the model); \<open>reasonText\<close> is the text after
  the colon.
\<close>

record additionalReason =
  holds :: "vehicle \<Rightarrow> bool"
  reasonText :: string

record quizConfig_t =
  scoring :: scoring_t
  topRecommendations :: nat
  similarTypes :: "string \<rightharpoonup> string list"
  thresholds :: thresholds_t
  additionalReasons :: "additionalReason list"

text \<open>The values \<^verbatim>\<open>quizConfig\<close> takes when no environment variable is set.\<close>

definition quizConfig :: quizConfig_t where
  "quizConfig =
     \<lparr>scoring = \<lparr>budgetWeight = 30, typeWeight = 25, rangeWeight = 20, techWeight = 15,
                 ecoWeight = 10, budgetFlexibility = 12 / 10, rangeBaseline = 300,
                 overBudgetTolerance = 11 / 10\<rparr>,
      topRecommendations = 5,
      similarTypes = map_of [(''sedan'', [''hatchback'']), (''suv'', [''wagon'']),
                             (''hatchback'', [''sedan'']), (''wagon'', [''suv''])],
      thresholds = \<lparr>excellentRange = 300, advancedTech = 90, ecoFriendly = 90,
                    fastCharging = 150\<rparr>,
      additionalReasons = []\<rparr>"

datatype error_kind =
  TypeError  \<comment> \<open>thrown on a property read of \<^verbatim>\<open>null\<close> or \<^verbatim>\<open>undefined\<close> and on a call of a missing method\<close>
| InvalidArgument  \<comment> \<open>the kind the specification names; no code path constructs it\<close>

subsection \<open>Library functions of the runtime\<close>

text \<open>\<^verbatim>\<open>Math.round\<close>: the nearest integer, a tie going up.\<close>

definition js_round :: "number \<Rightarrow> int" where
  "js_round x = \<lfloor>x + 1 / 2\<rfloor>"

text \<open>A property key: \<^verbatim>\<open>obj[undefined]\<close> reads the key \<^verbatim>\<open>"undefined"\<close>.\<close>

definition property_key :: "string option \<Rightarrow> string" where
  "property_key k = (case k of None \<Rightarrow> ''undefined'' | Some s \<Rightarrow> s)"

text \<open>
  \<^verbatim>\<open>xs?.includes(x)\<close> on an array that may be \<^verbatim>\<open>undefined\<close>: \<open>False\<close> (a falsy
  \<^verbatim>\<open>undefined\<close>) when it is.
\<close>

definition includes_opt :: "string list option \<Rightarrow> string \<Rightarrow> bool" where
  "includes_opt xs x = (case xs of None \<Rightarrow> False | Some ys \<Rightarrow> x \<in> set ys)"

text \<open>
  The members that every plain object inherits from \<^verbatim>\<open>Object.prototype\<close>. A read of one
  of these keys on an object that has no own entry for it gives a function (for
  \<^verbatim>\<open>__proto__\<close>, the prototype object), which is neither \<^verbatim>\<open>null\<close> nor \<^verbatim>\<open>undefined\<close>
  and has no method \<^verbatim>\<open>includes\<close>.
\<close>

definition object_prototype_members :: "string list" where
  "object_prototype_members =
     [''constructor'', ''hasOwnProperty'', ''isPrototypeOf'', ''propertyIsEnumerable'',
      ''toLocaleString'', ''toString'', ''valueOf'', ''__proto__'', ''__defineGetter__'',
      ''__defineSetter__'', ''__lookupGetter__'', ''__lookupSetter__'']"

text \<open>
  \<^verbatim>\<open>table[key]?.includes(x)\<close> on an object used as a table of arrays. An own entry is
  searched; a key without an entry gives \<^verbatim>\<open>undefined\<close>, where \<^verbatim>\<open>?.\<close> stops; an inherited
  member passes \<^verbatim>\<open>?.\<close> and the call of its missing \<^verbatim>\<open>includes\<close> throws.
\<close>

definition table_includes ::
  "(string \<rightharpoonup> string list) \<Rightarrow> string option \<Rightarrow> string \<Rightarrow> error_kind + bool" where
  "table_includes table key x =
     (case table (property_key key) of
        Some ys \<Rightarrow> Inr (x \<in> set ys)
      | None \<Rightarrow>
          if property_key key \<in> set object_prototype_members then Inl TypeError
          else Inr False)"

subsection \<open>\<^verbatim>\<open>calculateMatchScore\<close> of routes/quiz.js\<close>

text \<open>The price after incentives, as the route computes it inline.\<close>

definition effectivePrice :: "vehicle \<Rightarrow> number" where
  "effectivePrice v =
     msrp (price v) -
       (federal (incentives (price v)) + state (incentives (price v)) +
        local (incentives (price v)))"

text \<open>Budget matching: what the first block adds to \<^verbatim>\<open>score\<close>.\<close>

definition budgetScore :: "quizConfig_t \<Rightarrow> vehicle \<Rightarrow> preferences \<Rightarrow> number" where
  "budgetScore cfg v p =
     (case budget p of
        None \<Rightarrow> 0
      | Some b \<Rightarrow>
          if effectivePrice v \<ge> budget_min b \<and> effectivePrice v \<le> budget_max b
          then budgetWeight (scoring cfg)
          else if effectivePrice v < budget_min b
          then budgetWeight (scoring cfg) * (67 / 100)
          else if effectivePrice v \<le> budget_max b * overBudgetTolerance (scoring cfg)
          then budgetWeight (scoring cfg) * (5 / 10)
          else 0)"

text \<open>
  Vehicle type matching: what the second block adds when its table read does not throw.
\<close>

definition typeScore :: "quizConfig_t \<Rightarrow> vehicle \<Rightarrow> preferences \<Rightarrow> number" where
  "typeScore cfg v p =
     (if Some (bodyType v) = vehicleType p
      then typeWeight (scoring cfg)
      else if includes_opt (similarTypes cfg (property_key (vehicleType p))) (bodyType v)
      then typeWeight (scoring cfg) * (6 / 10)
      else 0)"

text \<open>
  Range importance. The guard \<^verbatim>\<open>if (preferences.rangeImportance)\<close> is a truthiness test:
  it fails for an absent field and for the number 0.
\<close>

definition rangeScore :: "quizConfig_t \<Rightarrow> vehicle \<Rightarrow> preferences \<Rightarrow> number" where
  "rangeScore cfg v p =
     (case rangeImportance p of
        None \<Rightarrow> 0
      | Some r \<Rightarrow>
          if r \<noteq> 0
          then min (range_epa (specifications v) / rangeBaseline (scoring cfg) * r *
                      (rangeWeight (scoring cfg) / 10))
                   (rangeWeight (scoring cfg))
          else 0)"

text \<open>Technology importance, behind the same kind of guard.\<close>

definition techContribution :: "quizConfig_t \<Rightarrow> vehicle \<Rightarrow> preferences \<Rightarrow> number" where
  "techContribution cfg v p =
     (case techImportance p of
        None \<Rightarrow> 0
      | Some t \<Rightarrow>
          if t \<noteq> 0 then techScore v / 100 * t * (techWeight (scoring cfg) / 10) else 0)"

text \<open>Eco-friendliness, added without a guard.\<close>

definition ecoContribution :: "quizConfig_t \<Rightarrow> vehicle \<Rightarrow> number" where
  "ecoContribution cfg v = ecoScore v / 100 * ecoWeight (scoring cfg)"

text \<open>
  The score on a vehicle and preferences that are objects, when the type block does not
  throw.
\<close>

definition matchScore :: "quizConfig_t \<Rightarrow> vehicle \<Rightarrow> preferences \<Rightarrow> int" where
  "matchScore cfg v p =
     js_round (0 + budgetScore cfg v p + typeScore cfg v p + rangeScore cfg v p +
               techContribution cfg v p + ecoContribution cfg v)"

text \<open>
  The type block with its failure: the read of \<^verbatim>\<open>similarTypes\<close> happens only when the
  body type is not the preferred type.
\<close>

definition typeMatching ::
  "quizConfig_t \<Rightarrow> vehicle \<Rightarrow> preferences \<Rightarrow> error_kind + number" where
  "typeMatching cfg v p =
     (if Some (bodyType v) = vehicleType p
      then Inr (typeWeight (scoring cfg))
      else
        (case table_includes (similarTypes cfg) (vehicleType p) (bodyType v) of
           Inl e \<Rightarrow> Inl e
         | Inr similar \<Rightarrow> Inr (if similar then typeWeight (scoring cfg) * (6 / 10) else 0)))"

text \<open>
  The function on any two arguments. Its first statement reads \<^verbatim>\<open>preferences.budget\<close>, and
  whichever branch follows reads a property of \<^verbatim>\<open>vehicle\<close> before anything is returned.
  On two objects the only statement that can throw is the table read of the type block; an
  exception leaves the function at once.
\<close>

definition calculateMatchScore ::
  "quizConfig_t \<Rightarrow> vehicle option \<Rightarrow> preferences option \<Rightarrow> error_kind + int" where
  "calculateMatchScore cfg vehicle preferences =
     (case preferences of
        None \<Rightarrow> Inl TypeError
      | Some p \<Rightarrow>
          (case vehicle of
             None \<Rightarrow> Inl TypeError
           | Some v \<Rightarrow>
               (case typeMatching cfg v p of
                  Inl e \<Rightarrow> Inl e
                | Inr t \<Rightarrow>
                    Inr (js_round (0 + budgetScore cfg v p + t + rangeScore cfg v p +
                                   techContribution cfg v p + ecoContribution cfg v)))))"

subsection \<open>\<^verbatim>\<open>generateMatchReasons\<close> of routes/quiz.js\<close>

text \<open>\<^verbatim>\<open>String.prototype.trim\<close> on ASCII text: white space is dropped at both ends.\<close>

definition is_white_space :: "char \<Rightarrow> bool" where
  "is_white_space c = (c \<in> set [CHR '' '', CHR 0x09, CHR 0x0A, CHR 0x0B, CHR 0x0C, CHR 0x0D])"

definition js_trim :: "string \<Rightarrow> string" where
  "js_trim s = rev (dropWhile is_white_space (rev (dropWhile is_white_space s)))"

text \<open>
  Each \<^verbatim>\<open>reasons.push\<close> appends one label. The last line is the loop over the configured
  additional reasons: an entry is pushed when its condition and its text are non-empty
  and the condition evaluates to a truthy value.
\<close>

definition generateMatchReasons :: "quizConfig_t \<Rightarrow> vehicle \<Rightarrow> preferences \<Rightarrow> string list" where
  "generateMatchReasons cfg v p =
     (case budget p of
        None \<Rightarrow> []
      | Some b \<Rightarrow>
          (if effectivePrice v \<le> budget_max b then [''Within budget''] else []) @
          (if effectivePrice v < budget_min b then [''Great value''] else [])) @
     (if Some (bodyType v) = vehicleType p then [''Perfect size match''] else []) @
     (if range_epa (specifications v) > excellentRange (thresholds cfg)
      then [''Excellent range''] else []) @
     (if techScore v > advancedTech (thresholds cfg) then [''Advanced technology''] else []) @
     (if ecoScore v > ecoFriendly (thresholds cfg) then [''Eco-friendly''] else []) @
     (if includes_opt (chargingFeatures p) ''fast-charging''
      then (if charging_dc_max_kw (specifications v) \<ge> fastCharging (thresholds cfg)
            then [''Fast charging''] else [])
      else []) @
     map (\<lambda>r. js_trim (reasonText r))
       (filter (\<lambda>r. reasonText r \<noteq> [] \<and> holds r v) (additionalReasons cfg))"

subsection \<open>Ranking in \<^verbatim>\<open>getVehicleRecommendations\<close>\<close>

text \<open>
  \<^verbatim>\<open>Array.prototype.sort\<close> with a comparator is a stable sort: \<open>a\<close> comes before \<open>b\<close> when
  \<open>cmp a b < 0\<close>, and elements that compare equal keep their order. The model inserts the
  elements from the right, each one in front of the first element it does not have to
  follow.
\<close>

fun js_insert :: "('a \<Rightarrow> 'a \<Rightarrow> int) \<Rightarrow> 'a \<Rightarrow> 'a list \<Rightarrow> 'a list" where
  "js_insert cmp x [] = [x]"
| "js_insert cmp x (y # ys) = (if cmp x y \<le> 0 then x # y # ys else y # js_insert cmp x ys)"

definition js_sort :: "('a \<Rightarrow> 'a \<Rightarrow> int) \<Rightarrow> 'a list \<Rightarrow> 'a list" where
  "js_sort cmp xs = foldr (js_insert cmp) xs []"

record recommendation =
  vehicle_of :: vehicle
  score :: int
  matchReasons :: "string list"

text \<open>
  The steps of \<^verbatim>\<open>getVehicleRecommendations\<close> after the database query, on the vehicles the
  query returned, with \<^verbatim>\<open>enableMLRecommendations\<close> and \<^verbatim>\<open>enableExternalScoringAPI\<close> off
  (their default): score every vehicle, sort with the comparator
  \<^verbatim>\<open>(a, b) => b.score - a.score\<close>, and \<^verbatim>\<open>slice(0, topRecommendations)\<close>. The limit is a
  count; a negative limit, for which \<^verbatim>\<open>slice\<close> counts from the end, is outside the model.
  These steps are reached with a preferred type that is an own key of \<^verbatim>\<open>similarTypes\<close> or
  no key at all: for an inherited member the spread
  \<^verbatim>\<open>vehicleTypes.push(...similarTypes[preferences.vehicleType])\<close> throws before the query.
\<close>

definition recommend :: "quizConfig_t \<Rightarrow> vehicle \<Rightarrow> preferences \<Rightarrow> recommendation" where
  "recommend cfg v p =
     \<lparr>vehicle_of = v, score = matchScore cfg v p, matchReasons = generateMatchReasons cfg v p\<rparr>"

definition getVehicleRecommendations ::
  "quizConfig_t \<Rightarrow> vehicle list \<Rightarrow> preferences \<Rightarrow> recommendation list" where
  "getVehicleRecommendations cfg vehicles p =
     take (topRecommendations cfg)
       (js_sort (\<lambda>a b. score b - score a) (map (\<lambda>v. recommend cfg v p) vehicles))"

subsection \<open>The Vehicle model\<close>

record matchScoring_t =
  matchBudgetWeight :: number
  matchTypeWeight :: number
  matchRangeWeight :: number
  matchTechWeight :: number
  matchEcoWeight :: number
  rangeBaselineEpa :: number

record vehicleConfig_t =
  matchScoring :: matchScoring_t
  scores_max :: number
  enableMatchScoring :: bool

text \<open>The values \<^verbatim>\<open>vehicleConfig\<close> takes when no environment variable is set.\<close>

definition vehicleConfig :: vehicleConfig_t where
  "vehicleConfig =
     \<lparr>matchScoring = \<lparr>matchBudgetWeight = 30, matchTypeWeight = 25, matchRangeWeight = 20,
                      matchTechWeight = 15, matchEcoWeight = 10, rangeBaselineEpa = 300\<rparr>,
      scores_max = 100,
      enableMatchScoring = True\<rparr>"

text \<open>The virtual \<^verbatim>\<open>effectivePrice\<close> of the schema.\<close>

definition Vehicle_effectivePrice :: "vehicle \<Rightarrow> number" where
  "Vehicle_effectivePrice v =
     (let totalIncentives = federal (incentives (price v)) + state (incentives (price v)) +
                            local (incentives (price v))
      in max 0 (msrp (price v) - totalIncentives))"

text \<open>The result of \<^verbatim>\<open>Math.round\<close> when an operand may be \<^verbatim>\<open>undefined\<close>.\<close>

datatype js_number = Num int | NaN

text \<open>
  The method \<^verbatim>\<open>calculateMatchScore\<close> of the schema, on preferences that are an object. It
  reads \<^verbatim>\<open>userPreferences.budget.min\<close> without a guard, which throws when the budget is
  absent, and multiplies by \<^verbatim>\<open>rangeImportance\<close> and \<^verbatim>\<open>techImportance\<close> without a guard,
  which gives \<^verbatim>\<open>NaN\<close> when either is \<^verbatim>\<open>undefined\<close>.
\<close>

definition Vehicle_calculateMatchScore ::
  "vehicleConfig_t \<Rightarrow> vehicle \<Rightarrow> preferences \<Rightarrow> error_kind + js_number" where
  "Vehicle_calculateMatchScore vcfg v userPreferences =
     (if \<not> enableMatchScoring vcfg then Inr (Num 0)
      else
        (case budget userPreferences of
           None \<Rightarrow> Inl TypeError
         | Some b \<Rightarrow>
             (case rangeImportance userPreferences of
                None \<Rightarrow> Inr NaN
              | Some r \<Rightarrow>
                  (case techImportance userPreferences of
                     None \<Rightarrow> Inr NaN
                   | Some t \<Rightarrow>
                       Inr (Num (js_round
                         (0 +
                          (if Vehicle_effectivePrice v \<ge> budget_min b \<and>
                              Vehicle_effectivePrice v \<le> budget_max b
                           then matchBudgetWeight (matchScoring vcfg)
                           else if Vehicle_effectivePrice v < budget_min b
                           then matchBudgetWeight (matchScoring vcfg) * (67 / 100)
                           else 0) +
                          (if Some (bodyType v) = vehicleType userPreferences
                           then matchTypeWeight (matchScoring vcfg) else 0) +
                          min (range_epa (specifications v) /
                                 rangeBaselineEpa (matchScoring vcfg) * r *
                                 (matchRangeWeight (matchScoring vcfg) / 10))
                              (matchRangeWeight (matchScoring vcfg)) +
                          techScore v / scores_max vcfg * t *
                            (matchTechWeight (matchScoring vcfg) / 10) +
                          ecoScore v / scores_max vcfg *
                            matchEcoWeight (matchScoring vcfg))))))))"

subsection \<open>The reasons as the specification lists them\<close>

text \<open>
  The seven documented labels in their fixed order, each paired with its own condition;
  the labels whose condition holds are kept. A budget condition does not hold without a
  budget.
\<close>

definition documentedReasons :: "quizConfig_t \<Rightarrow> vehicle \<Rightarrow> preferences \<Rightarrow> string list" where
  "documentedReasons cfg v p =
     map snd (filter fst
       [((case budget p of None \<Rightarrow> False | Some b \<Rightarrow> effectivePrice v \<le> budget_max b),
           ''Within budget''),
        ((case budget p of None \<Rightarrow> False | Some b \<Rightarrow> effectivePrice v < budget_min b),
           ''Great value''),
        (Some (bodyType v) = vehicleType p, ''Perfect size match''),
        (range_epa (specifications v) > excellentRange (thresholds cfg), ''Excellent range''),
        (techScore v > advancedTech (thresholds cfg), ''Advanced technology''),
        (ecoScore v > ecoFriendly (thresholds cfg), ''Eco-friendly''),
        ((case chargingFeatures p of None \<Rightarrow> False | Some fs \<Rightarrow> ''fast-charging'' \<in> set fs) \<and>
         charging_dc_max_kw (specifications v) \<ge> fastCharging (thresholds cfg),
           ''Fast charging'')])"

subsection \<open>Concrete inputs\<close>

text \<open>A sedan with a federal incentive of 7500, at a given list price.\<close>

definition sedan :: "number \<Rightarrow> vehicle" where
  "sedan m =
     \<lparr>bodyType = ''sedan'',
      price = \<lparr>msrp = m, incentives = \<lparr>federal = 7500, state = 0, local = 0\<rparr>\<rparr>,
      specifications = \<lparr>range_epa = 400, charging_dc_max_kw = 200\<rparr>,
      techScore = 0, ecoScore = 100\<rparr>"

definition city_car :: vehicle where
  "city_car =
     \<lparr>bodyType = ''sedan'',
      price = \<lparr>msrp = 40000, incentives = \<lparr>federal = 0, state = 0, local = 0\<rparr>\<rparr>,
      specifications = \<lparr>range_epa = 150, charging_dc_max_kw = 50\<rparr>,
      techScore = 0, ecoScore = 50\<rparr>"

definition wagon :: vehicle where
  "wagon =
     \<lparr>bodyType = ''wagon'',
      price = \<lparr>msrp = 45000, incentives = \<lparr>federal = 0, state = 0, local = 0\<rparr>\<rparr>,
      specifications = \<lparr>range_epa = 150, charging_dc_max_kw = 100\<rparr>,
      techScore = 95, ecoScore = 50\<rparr>"

text \<open>Preferences as \<^verbatim>\<open>processQuizAnswers\<close> builds them from a full set of answers.\<close>

definition quiz_preferences :: preferences where
  "quiz_preferences =
     \<lparr>budget = Some \<lparr>budget_min = 30000, budget_max = 50000\<rparr>,
      vehicleType = Some ''sedan'',
      rangeImportance = Some 10,
      techImportance = Some 10,
      chargingFeatures = Some [''fast-charging'']\<rparr>"

text \<open>Preferences with every optional field missing.\<close>

definition bare_preferences :: preferences where
  "bare_preferences =
     \<lparr>budget = None, vehicleType = Some ''sedan'', rangeImportance = None,
      techImportance = None, chargingFeatures = None\<rparr>"

text \<open>The budget \<^verbatim>\<open>under-30k\<close> of the budget mappings, the other answers unchanged.\<close>

definition under_30k_preferences :: preferences where
  "under_30k_preferences =
     quiz_preferences\<lparr>budget := Some \<lparr>budget_min = 0, budget_max = 30000\<rparr>\<rparr>"

text \<open>A range importance of 0, which is present and falsy.\<close>

definition zero_range_preferences :: preferences where
  "zero_range_preferences = quiz_preferences\<lparr>rangeImportance := Some 0\<rparr>"


text \<open>A preference for an SUV, the other answers unchanged.\<close>

definition suv_preferences :: preferences where
  "suv_preferences = quiz_preferences\<lparr>vehicleType := Some ''suv''\<rparr>"

text \<open>Configurations that differ from the default in one environment variable.\<close>

definition top_two :: quizConfig_t where
  "top_two = quizConfig\<lparr>topRecommendations := 2\<rparr>"

definition negative_rangeWeight :: quizConfig_t where
  "negative_rangeWeight = quizConfig\<lparr>scoring := (scoring quizConfig)\<lparr>rangeWeight := - 5\<rparr>\<rparr>"

definition negative_rangeBaseline :: quizConfig_t where
  "negative_rangeBaseline =
     quizConfig\<lparr>scoring := (scoring quizConfig)\<lparr>rangeBaseline := - 300\<rparr>\<rparr>"

definition extra_eco_reason :: quizConfig_t where
  "extra_eco_reason =
     quizConfig\<lparr>additionalReasons :=
       [\<lparr>holds = (\<lambda>v. ecoScore v > 50), reasonText = '' Eco-friendly''\<rparr>]\<rparr>"

section \<open>Properties\<close>

subsection \<open>Auxiliary facts\<close>

lemma js_round_eq_iff:
  "js_round x = n \<longleftrightarrow> of_int n \<le> x + 1 / 2 \<and> x + 1 / 2 < of_int n + 1"
  by (simp add: js_round_def floor_eq_iff)

lemma js_round_mono: "x \<le> y \<Longrightarrow> js_round x \<le> js_round y"
  by (simp add: js_round_def floor_mono)

lemma effectivePrice_sedan: "effectivePrice (sedan m) = m - 7500"
  by (simp add: effectivePrice_def sedan_def)

lemma typeMatching_eq:
  "typeMatching cfg v p =
     (if Some (bodyType v) \<noteq> vehicleType p \<and>
         similarTypes cfg (property_key (vehicleType p)) = None \<and>
         property_key (vehicleType p) \<in> set object_prototype_members
      then Inl TypeError
      else Inr (typeScore cfg v p))"
  by (simp add: typeMatching_def table_includes_def typeScore_def includes_opt_def
      split: option.splits)

lemma calculateMatchScore_Some:
  "calculateMatchScore cfg (Some v) (Some p) =
     (if Some (bodyType v) \<noteq> vehicleType p \<and>
         similarTypes cfg (property_key (vehicleType p)) = None \<and>
         property_key (vehicleType p) \<in> set object_prototype_members
      then Inl TypeError
      else Inr (matchScore cfg v p))"
  by (simp add: calculateMatchScore_def typeMatching_eq matchScore_def)

lemma calculateMatchScore_returns:
  "property_key (vehicleType p) \<notin> set object_prototype_members \<Longrightarrow>
     calculateMatchScore cfg (Some v) (Some p) = Inr (matchScore cfg v p)"
  by (simp add: calculateMatchScore_Some)

lemma calculateMatchScore_exact_match:
  "Some (bodyType v) = vehicleType p \<Longrightarrow>
     calculateMatchScore cfg (Some v) (Some p) = Inr (matchScore cfg v p)"
  by (simp add: calculateMatchScore_Some)

lemma calculateMatchScore_own_key:
  "similarTypes cfg (property_key (vehicleType p)) = Some ts \<Longrightarrow>
     calculateMatchScore cfg (Some v) (Some p) = Inr (matchScore cfg v p)"
  by (simp add: calculateMatchScore_Some)

lemmas score_defs =
  matchScore_def budgetScore_def typeScore_def rangeScore_def techContribution_def
  ecoContribution_def effectivePrice_def includes_opt_def property_key_def

lemmas input_defs =
  sedan_def city_car_def wagon_def quiz_preferences_def bare_preferences_def
  suv_preferences_def quizConfig_def

subsection \<open>The budget sub-score\<close>

text \<open>
  C1. Without a budget the budget block adds 0. With a budget, the cases being read in the
  order in which they are listed: the full \<open>budgetWeight\<close> when the effective price lies
  between \<open>min\<close> and \<open>max\<close>; \<open>budgetWeight \<times> 0.67\<close> when it is below \<open>min\<close>;
  \<open>budgetWeight \<times> 0.5\<close> when it is above \<open>max\<close> and at most
  \<open>max \<times> overBudgetTolerance\<close>; and 0 otherwise.
\<close>

theorem C1_budget_sub_score:
  "(budget p = None \<longrightarrow> budgetScore cfg v p = 0) \<and>
   (\<forall>b. budget p = Some b \<longrightarrow>
      (budget_min b \<le> effectivePrice v \<and> effectivePrice v \<le> budget_max b \<longrightarrow>
         budgetScore cfg v p = budgetWeight (scoring cfg)) \<and>
      (effectivePrice v < budget_min b \<longrightarrow>
         budgetScore cfg v p = budgetWeight (scoring cfg) * (67 / 100)) \<and>
      (budget_min b \<le> effectivePrice v \<and> budget_max b < effectivePrice v \<and>
       effectivePrice v \<le> budget_max b * overBudgetTolerance (scoring cfg) \<longrightarrow>
         budgetScore cfg v p = budgetWeight (scoring cfg) * (1 / 2)) \<and>
      (budget_min b \<le> effectivePrice v \<and> budget_max b < effectivePrice v \<and>
       budget_max b * overBudgetTolerance (scoring cfg) < effectivePrice v \<longrightarrow>
         budgetScore cfg v p = 0))"
  by (cases "budget p") (auto simp: budgetScore_def)

theorem C1_budget_sub_score_witness:
  "budgetScore quizConfig (sedan 52500) quiz_preferences = 30 \<and>
   budgetScore quizConfig (sedan 32500) quiz_preferences = 201 / 10 \<and>
   budgetScore quizConfig (sedan 60000) quiz_preferences = 15 \<and>
   budgetScore quizConfig (sedan 70000) quiz_preferences = 0 \<and>
   budgetScore quizConfig (sedan 52500) bare_preferences = 0"
  using C1_budget_sub_score [of quiz_preferences quizConfig "sedan 52500"]
        C1_budget_sub_score [of quiz_preferences quizConfig "sedan 32500"]
        C1_budget_sub_score [of quiz_preferences quizConfig "sedan 60000"]
        C1_budget_sub_score [of quiz_preferences quizConfig "sedan 70000"]
        C1_budget_sub_score [of bare_preferences quizConfig "sedan 52500"]
  by (simp add: effectivePrice_sedan quiz_preferences_def bare_preferences_def quizConfig_def)

subsection \<open>The range sub-score\<close>

text \<open>
  C2, as the claim states it, fails: with \<^verbatim>\<open>RANGE_SCORE_WEIGHT=-5\<close> the range block adds
  0 both without a \<open>rangeImportance\<close> and with a \<open>rangeImportance\<close> of 0, which
  exceeds the weight and, in the second case, is not the value -5 of the formula.
\<close>

theorem C2_range_cap_counterexample:
  "rangeScore negative_rangeWeight (sedan 52500) bare_preferences = 0 \<and>
   \<not> rangeScore negative_rangeWeight (sedan 52500) bare_preferences
       \<le> rangeWeight (scoring negative_rangeWeight) \<and>
   rangeImportance zero_range_preferences = Some 0 \<and>
   rangeScore negative_rangeWeight (sedan 52500) zero_range_preferences = 0 \<and>
   min (range_epa (specifications (sedan 52500)) /
          rangeBaseline (scoring negative_rangeWeight) * 0 *
          (rangeWeight (scoring negative_rangeWeight) / 10))
       (rangeWeight (scoring negative_rangeWeight)) = - 5"
  by (simp add: rangeScore_def negative_rangeWeight_def quizConfig_def bare_preferences_def
      zero_range_preferences_def quiz_preferences_def)

text \<open>
  C2, amended. With \<open>rangeImportance\<close> present and not 0 the range sub-score is
  \<open>min((epaRange / rangeBaseline) \<times> rangeImportance \<times> (rangeWeight / 10), rangeWeight)\<close>
  and so never exceeds \<open>rangeWeight\<close>; with \<open>rangeImportance\<close> absent or 0 it is 0, so
  that over all inputs it never exceeds \<open>rangeWeight\<close> when \<open>rangeWeight\<close> is not
  negative. For a range of 400, a baseline of 300, an importance of 10 and a weight of 20
  it is exactly 20.
\<close>

theorem C2_range_sub_score:
  "(\<forall>r. rangeImportance p = Some r \<and> r \<noteq> 0 \<longrightarrow>
      rangeScore cfg v p =
        min (range_epa (specifications v) / rangeBaseline (scoring cfg) * r *
               (rangeWeight (scoring cfg) / 10))
            (rangeWeight (scoring cfg)) \<and>
      rangeScore cfg v p \<le> rangeWeight (scoring cfg)) \<and>
   (rangeImportance p = None \<or> rangeImportance p = Some 0 \<longrightarrow> rangeScore cfg v p = 0) \<and>
   (0 \<le> rangeWeight (scoring cfg) \<longrightarrow> rangeScore cfg v p \<le> rangeWeight (scoring cfg)) \<and>
   (range_epa (specifications v) = 400 \<and> rangeBaseline (scoring cfg) = 300 \<and>
    rangeImportance p = Some 10 \<and> rangeWeight (scoring cfg) = 20 \<longrightarrow>
      rangeScore cfg v p = 20)"
  by (cases "rangeImportance p") (auto simp: rangeScore_def)

theorem C2_range_sub_score_witness:
  "rangeScore quizConfig (sedan 52500) quiz_preferences = 20 \<and>
   rangeScore quizConfig wagon quiz_preferences = 10 \<and>
   rangeScore quizConfig wagon bare_preferences = 0"
  using C2_range_sub_score [of quiz_preferences quizConfig "sedan 52500"]
        C2_range_sub_score [of quiz_preferences quizConfig wagon]
        C2_range_sub_score [of bare_preferences quizConfig wagon]
  by (simp add: input_defs)

subsection \<open>The body-type sub-score\<close>



subsection \<open>Ranking\<close>

text \<open>
  With the comparator \<^verbatim>\<open>(a, b) => b.score - a.score\<close> the sort is the library's stable
  insertion sort on the negated score.
\<close>

lemma js_insert_insort_key:
  fixes f :: "'a \<Rightarrow> int"
  shows "js_insert (\<lambda>a b. f b - f a) x ys = insort_key (\<lambda>r. - f r) x ys"
  by (induction ys) auto

lemma js_sort_sort_key:
  fixes f :: "'a \<Rightarrow> int"
  shows "js_sort (\<lambda>a b. f b - f a) xs = sort_key (\<lambda>r. - f r) xs"
  by (induction xs) (simp_all add: js_sort_def js_insert_insort_key)

lemma js_sort_mset:
  fixes f :: "'a \<Rightarrow> int"
  shows "mset (js_sort (\<lambda>a b. f b - f a) xs) = mset xs"
  by (simp add: js_sort_sort_key)

lemma js_sort_descending:
  fixes f :: "'a \<Rightarrow> int"
  shows "sorted_wrt (\<lambda>a b. f a \<ge> f b) (js_sort (\<lambda>a b. f b - f a) xs)"
proof -
  have "sorted (map (\<lambda>r. - f r) (sort_key (\<lambda>r. - f r) xs))"
    by (rule sorted_sort_key)
  then show ?thesis
    by (simp add: js_sort_sort_key sorted_map)
qed

lemma js_sort_stable:
  fixes f :: "'a \<Rightarrow> int"
  shows "filter (\<lambda>r. f r = k) (js_sort (\<lambda>a b. f b - f a) xs) = filter (\<lambda>r. f r = k) xs"
proof -
  have "filter (\<lambda>r. - f r = - k) (sort_key (\<lambda>r. - f r) xs) = filter (\<lambda>r. - f r = - k) xs"
    by (rule sort_key_stable)
  then show ?thesis
    by (simp add: js_sort_sort_key)
qed

lemma matchScore_city_car: "matchScore top_two city_car quiz_preferences = 70"
  by (simp add: score_defs js_round_eq_iff input_defs top_two_def)

lemma matchScore_sedan_in_budget:
  "37500 \<le> m \<Longrightarrow> m \<le> 57500 \<Longrightarrow> matchScore top_two (sedan m) quiz_preferences = 85"
  by (simp add: score_defs js_round_eq_iff input_defs top_two_def)

text \<open>
  C4. The recommendations are the first \<open>topRecommendations\<close> entries of a list that holds
  the scored form of every candidate exactly once, is in descending order of score, and
  keeps the candidates of equal score in their input order. Candidates with the scores
  70, 85 and 85 and a limit of 2 give the two candidates of score 85 in their input order.
\<close>

theorem C4_rank:
  "(\<exists>sorted_all.
      getVehicleRecommendations cfg vehicles p = take (topRecommendations cfg) sorted_all \<and>
      mset sorted_all = mset (map (\<lambda>v. recommend cfg v p) vehicles) \<and>
      sorted_wrt (\<lambda>a b. score a \<ge> score b) sorted_all \<and>
      (\<forall>k. filter (\<lambda>r. score r = k) sorted_all =
           filter (\<lambda>r. score r = k) (map (\<lambda>v. recommend cfg v p) vehicles))) \<and>
   (\<forall>v. score (recommend cfg v p) = matchScore cfg v p \<and> vehicle_of (recommend cfg v p) = v) \<and>
   (\<forall>v1 v2 v3. vehicles = [v1, v2, v3] \<and> matchScore cfg v1 p = 70 \<and> matchScore cfg v2 p = 85 \<and>
      matchScore cfg v3 p = 85 \<and> topRecommendations cfg = 2 \<longrightarrow>
      getVehicleRecommendations cfg vehicles p = [recommend cfg v2 p, recommend cfg v3 p])"
proof (intro conjI allI impI)
  let ?scored = "map (\<lambda>v. recommend cfg v p) vehicles"
  let ?sorted = "js_sort (\<lambda>a b. score b - score a) ?scored"
  have "getVehicleRecommendations cfg vehicles p = take (topRecommendations cfg) ?sorted"
    by (simp add: getVehicleRecommendations_def)
  moreover have "mset ?sorted = mset ?scored"
    by (rule js_sort_mset)
  moreover have "sorted_wrt (\<lambda>a b. score a \<ge> score b) ?sorted"
    by (rule js_sort_descending)
  moreover have "\<forall>k. filter (\<lambda>r. score r = k) ?sorted = filter (\<lambda>r. score r = k) ?scored"
    by (simp add: js_sort_stable)
  ultimately show "\<exists>sorted_all.
      getVehicleRecommendations cfg vehicles p = take (topRecommendations cfg) sorted_all \<and>
      mset sorted_all = mset ?scored \<and>
      sorted_wrt (\<lambda>a b. score a \<ge> score b) sorted_all \<and>
      (\<forall>k. filter (\<lambda>r. score r = k) sorted_all = filter (\<lambda>r. score r = k) ?scored)"
    by blast
next
  fix v
  show "score (recommend cfg v p) = matchScore cfg v p"
    by (simp add: recommend_def)
  show "vehicle_of (recommend cfg v p) = v"
    by (simp add: recommend_def)
next
  fix v1 v2 v3
  assume "vehicles = [v1, v2, v3] \<and> matchScore cfg v1 p = 70 \<and> matchScore cfg v2 p = 85 \<and>
      matchScore cfg v3 p = 85 \<and> topRecommendations cfg = 2"
  then show "getVehicleRecommendations cfg vehicles p = [recommend cfg v2 p, recommend cfg v3 p]"
    by (simp add: getVehicleRecommendations_def js_sort_def recommend_def)
qed

theorem C4_rank_witness:
  "getVehicleRecommendations top_two [city_car, sedan 52500, sedan 47500] quiz_preferences =
     [recommend top_two (sedan 52500) quiz_preferences,
      recommend top_two (sedan 47500) quiz_preferences]"
proof -
  have scores:
    "matchScore top_two city_car quiz_preferences = 70"
    "matchScore top_two (sedan 52500) quiz_preferences = 85"
    "matchScore top_two (sedan 47500) quiz_preferences = 85"
    by (simp_all add: matchScore_city_car matchScore_sedan_in_budget)
  have top: "topRecommendations top_two = 2"
    by (simp add: top_two_def)
  from C4_rank [of top_two "[city_car, sedan 52500, sedan 47500]" quiz_preferences]
  have "\<forall>v1 v2 v3. [city_car, sedan 52500, sedan 47500] = [v1, v2, v3] \<and>
      matchScore top_two v1 quiz_preferences = 70 \<and> matchScore top_two v2 quiz_preferences = 85 \<and>
      matchScore top_two v3 quiz_preferences = 85 \<and> topRecommendations top_two = 2 \<longrightarrow>
      getVehicleRecommendations top_two [city_car, sedan 52500, sedan 47500] quiz_preferences =
        [recommend top_two v2 quiz_preferences, recommend top_two v3 quiz_preferences]"
    by blast
  with scores top show ?thesis
    by blast
qed

subsection \<open>Match reasons\<close>

lemma generateMatchReasons_split:
  "generateMatchReasons cfg v p =
     documentedReasons cfg v p @
     map (\<lambda>r. js_trim (reasonText r))
       (filter (\<lambda>r. reasonText r \<noteq> [] \<and> holds r v) (additionalReasons cfg))"
  by (cases "budget p"; cases "chargingFeatures p")
    (simp_all add: generateMatchReasons_def documentedReasons_def includes_opt_def)

lemma distinct_documentedReasons: "distinct (documentedReasons cfg v p)"
  unfolding documentedReasons_def
  by (rule distinct_map_filter) simp

text \<open>
  C5, as the claim states it, fails: with
  \<^verbatim>\<open>ADDITIONAL_MATCH_REASONS="ecoScore > 50: Eco-friendly"\<close> the configured label is pushed
  after the documented ones, so the sequence is not the documented one and holds a label
  twice.
\<close>

theorem C5_reasons_counterexample:
  "generateMatchReasons extra_eco_reason (sedan 52500) quiz_preferences =
     [''Within budget'', ''Perfect size match'', ''Excellent range'', ''Eco-friendly'',
      ''Fast charging'', ''Eco-friendly''] \<and>
   generateMatchReasons extra_eco_reason (sedan 52500) quiz_preferences \<noteq>
     documentedReasons extra_eco_reason (sedan 52500) quiz_preferences \<and>
   \<not> distinct (generateMatchReasons extra_eco_reason (sedan 52500) quiz_preferences)"
proof -
  have "generateMatchReasons extra_eco_reason (sedan 52500) quiz_preferences =
     [''Within budget'', ''Perfect size match'', ''Excellent range'', ''Eco-friendly'',
      ''Fast charging'', ''Eco-friendly'']"
    by (simp add: generateMatchReasons_def extra_eco_reason_def quizConfig_def
        quiz_preferences_def effectivePrice_sedan includes_opt_def js_trim_def
        is_white_space_def)
      (simp add: sedan_def)
  moreover have "documentedReasons extra_eco_reason (sedan 52500) quiz_preferences =
     [''Within budget'', ''Perfect size match'', ''Excellent range'', ''Eco-friendly'',
      ''Fast charging'']"
    by (simp add: documentedReasons_def extra_eco_reason_def quizConfig_def
        quiz_preferences_def effectivePrice_sedan)
      (simp add: sedan_def)
  ultimately show ?thesis
    by simp
qed

text \<open>
  C5, amended. The reasons are the documented labels whose condition holds, each condition
  evaluated on its own, in the fixed order, followed by the configured additional reasons
  whose condition holds; when no additional reason is configured (the default) they are
  exactly the documented labels, without duplicates. When the effective price is below
  \<open>budget.min\<close> and \<open>budget.min \<le> budget.max\<close>, the sequence starts with both
  \<open>Within budget\<close> and \<open>Great value\<close>.
\<close>

theorem C5_reasons:
  "generateMatchReasons cfg v p =
     documentedReasons cfg v p @
     map (\<lambda>r. js_trim (reasonText r))
       (filter (\<lambda>r. reasonText r \<noteq> [] \<and> holds r v) (additionalReasons cfg)) \<and>
   (additionalReasons cfg = [] \<longrightarrow>
      generateMatchReasons cfg v p = documentedReasons cfg v p \<and>
      distinct (generateMatchReasons cfg v p)) \<and>
   (\<forall>b. budget p = Some b \<and> effectivePrice v < budget_min b \<and> budget_min b \<le> budget_max b \<longrightarrow>
      take 2 (generateMatchReasons cfg v p) = [''Within budget'', ''Great value''])"
proof (intro conjI allI impI)
  show "generateMatchReasons cfg v p =
     documentedReasons cfg v p @
     map (\<lambda>r. js_trim (reasonText r))
       (filter (\<lambda>r. reasonText r \<noteq> [] \<and> holds r v) (additionalReasons cfg))"
    by (rule generateMatchReasons_split)
next
  assume "additionalReasons cfg = []"
  then show "generateMatchReasons cfg v p = documentedReasons cfg v p"
    by (simp add: generateMatchReasons_split)
next
  assume "additionalReasons cfg = []"
  then show "distinct (generateMatchReasons cfg v p)"
    by (simp add: generateMatchReasons_split distinct_documentedReasons)
next
  fix b
  assume "budget p = Some b \<and> effectivePrice v < budget_min b \<and> budget_min b \<le> budget_max b"
  then show "take 2 (generateMatchReasons cfg v p) = [''Within budget'', ''Great value'']"
    by (simp add: generateMatchReasons_def)
qed

theorem C5_reasons_witness:
  "generateMatchReasons quizConfig (sedan 32500) quiz_preferences =
     [''Within budget'', ''Great value'', ''Perfect size match'', ''Excellent range'',
      ''Eco-friendly'', ''Fast charging'']"
  using C5_reasons [of quizConfig "sedan 32500" quiz_preferences]
  by (simp add: documentedReasons_def quizConfig_def quiz_preferences_def effectivePrice_sedan)
    (simp add: sedan_def)

subsection \<open>The effective price\<close>

lemma Vehicle_effectivePrice_eq:
  "0 \<le> effectivePrice v \<Longrightarrow> Vehicle_effectivePrice v = effectivePrice v"
  by (simp add: Vehicle_effectivePrice_def effectivePrice_def)

text \<open>
  C6 says that the effective price used by the score is the list price minus the three
  incentives, a negative difference counting as 0. The virtual \<open>effectivePrice\<close> of the
  model does that; the route recomputes the price inline and leaves out the clamp. For a
  list price of 5000 with a federal incentive of 7500 the route scores with a price of
  -2500: against a budget of 0 to 30000 it adds \<open>30 \<times> 0.67\<close> for the budget where the
  clamped price 0 earns the full 30, and the total is 75 instead of 85.
\<close>

theorem C6_effective_price_not_clamped:
  "effectivePrice (sedan 5000) = - 2500 \<and>
   Vehicle_effectivePrice (sedan 5000) = 0 \<and>
   budgetScore quizConfig (sedan 5000) under_30k_preferences = 201 / 10 \<and>
   calculateMatchScore quizConfig (Some (sedan 5000)) (Some under_30k_preferences) = Inr 75 \<and>
   Vehicle_calculateMatchScore vehicleConfig (sedan 5000) under_30k_preferences = Inr (Num 85)"
  by (simp add: calculateMatchScore_Some score_defs js_round_eq_iff input_defs
      under_30k_preferences_def Vehicle_effectivePrice_def Vehicle_calculateMatchScore_def
      vehicleConfig_def)

subsection \<open>Totality and errors\<close>




text \<open>
  C8, as the claim states it, fails: a call without a vehicle or without preferences ends
  in the runtime's \<open>TypeError\<close>, not in an \<open>InvalidArgument\<close>.
\<close>

theorem C8_error_kind_counterexample:
  "calculateMatchScore quizConfig None (Some quiz_preferences) = Inl TypeError \<and>
   calculateMatchScore quizConfig (Some (sedan 52500)) None = Inl TypeError \<and>
   calculateMatchScore quizConfig None (Some quiz_preferences) \<noteq> Inl InvalidArgument \<and>
   calculateMatchScore quizConfig (Some (sedan 52500)) None \<noteq> Inl InvalidArgument"
  by (simp add: calculateMatchScore_def)

text \<open>
  C8, amended. A call in which the vehicle or the preferences are absent fails at once with
  the runtime's \<open>TypeError\<close> and returns neither \<open>NaN\<close> nor zero; \<open>TypeError\<close> is the
  only error kind the function raises, and it never raises \<open>InvalidArgument\<close>.
\<close>

theorem C8_error_kind:
  "(vehicle = None \<or> preferences = None \<longrightarrow>
      calculateMatchScore cfg vehicle preferences = Inl TypeError) \<and>
   (\<forall>e. calculateMatchScore cfg vehicle preferences = Inl e \<longrightarrow> e = TypeError) \<and>
   calculateMatchScore cfg vehicle preferences \<noteq> Inl InvalidArgument"
proof -
  have only: "e = TypeError" if "calculateMatchScore cfg vehicle preferences = Inl e" for e
  proof (cases preferences)
    case None
    with that show ?thesis by (simp add: calculateMatchScore_def)
  next
    case p: (Some p)
    show ?thesis
    proof (cases vehicle)
      case None
      with that p show ?thesis by (simp add: calculateMatchScore_def)
    next
      case (Some v)
      with that p show ?thesis
        by (simp add: calculateMatchScore_Some split: if_splits)
    qed
  qed
  have absent: "calculateMatchScore cfg vehicle preferences = Inl TypeError"
    if "vehicle = None \<or> preferences = None"
    using that by (auto simp: calculateMatchScore_def split: option.splits)
  from only have "calculateMatchScore cfg vehicle preferences \<noteq> Inl InvalidArgument"
    by fastforce
  with only absent show ?thesis
    by blast
qed

theorem C8_error_kind_witness:
  "calculateMatchScore quizConfig None None = Inl TypeError \<and>
   calculateMatchScore quizConfig None (Some bare_preferences) = Inl TypeError"
  using C8_error_kind [of None None quizConfig]
        C8_error_kind [of None "Some bare_preferences" quizConfig]
  by simp

subsection \<open>Monotonicity\<close>

lemma rangeScore_mono:
  assumes "0 < rangeBaseline (scoring cfg)" and "0 \<le> rangeWeight (scoring cfg)"
    and "\<forall>r. rangeImportance p = Some r \<longrightarrow> 0 \<le> r"
    and "specifications v' = (specifications v)\<lparr>range_epa := e'\<rparr>"
    and "range_epa (specifications v) \<le> e'"
  shows "rangeScore cfg v p \<le> rangeScore cfg v' p"
proof (cases "rangeImportance p")
  case None
  then show ?thesis by (simp add: rangeScore_def)
next
  case (Some r)
  with assms(3) have r: "0 \<le> r" by simp
  have w: "0 \<le> rangeWeight (scoring cfg) / 10"
    using assms(2) by simp
  have "range_epa (specifications v) / rangeBaseline (scoring cfg)
        \<le> e' / rangeBaseline (scoring cfg)"
    using assms(1,5) by (simp add: divide_right_mono)
  from mult_right_mono [OF this r]
  have "range_epa (specifications v) / rangeBaseline (scoring cfg) * r
        \<le> e' / rangeBaseline (scoring cfg) * r" .
  from mult_right_mono [OF this w]
  have "range_epa (specifications v) / rangeBaseline (scoring cfg) * r *
               (rangeWeight (scoring cfg) / 10)
        \<le> e' / rangeBaseline (scoring cfg) * r * (rangeWeight (scoring cfg) / 10)" .
  then show ?thesis
    using Some assms(4) by (simp add: rangeScore_def min.coboundedI1 min.coboundedI2)
qed

lemma matchScore_ecoScore_mono:
  assumes "0 \<le> ecoWeight (scoring cfg)" and "ecoScore v \<le> s'"
  shows "matchScore cfg v p \<le> matchScore cfg (v\<lparr>ecoScore := s'\<rparr>) p"
proof -
  have ep: "effectivePrice (v\<lparr>ecoScore := s'\<rparr>) = effectivePrice v"
    by (simp add: effectivePrice_def)
  have "ecoContribution cfg v \<le> ecoContribution cfg (v\<lparr>ecoScore := s'\<rparr>)"
    using assms by (simp add: ecoContribution_def divide_right_mono mult_right_mono)
  moreover have "budgetScore cfg (v\<lparr>ecoScore := s'\<rparr>) p = budgetScore cfg v p"
    unfolding budgetScore_def ep ..
  moreover have "typeScore cfg (v\<lparr>ecoScore := s'\<rparr>) p = typeScore cfg v p"
    by (simp add: typeScore_def)
  moreover have "rangeScore cfg (v\<lparr>ecoScore := s'\<rparr>) p = rangeScore cfg v p"
    by (simp add: rangeScore_def split: option.splits)
  moreover have "techContribution cfg (v\<lparr>ecoScore := s'\<rparr>) p = techContribution cfg v p"
    by (simp add: techContribution_def split: option.splits)
  ultimately show ?thesis
    unfolding matchScore_def by (intro js_round_mono) simp
qed

text \<open>
  C9, as the claim states it, fails: with \<^verbatim>\<open>RANGE_BASELINE=-300\<close>, an importance of 10 and
  the default weights, raising the range of a vehicle from 150 to 400 lowers its range
  sub-score from -10 to -80/3.
\<close>

theorem C9_monotone_counterexample:
  "rangeImportance quiz_preferences = Some 10 \<and>
   0 \<le> rangeWeight (scoring negative_rangeBaseline) \<and>
   range_epa (specifications city_car) \<le> 400 \<and>
   rangeScore negative_rangeBaseline city_car quiz_preferences = - 10 \<and>
   rangeScore negative_rangeBaseline
     (city_car\<lparr>specifications := (specifications city_car)\<lparr>range_epa := 400\<rparr>\<rparr>)
     quiz_preferences = - 80 / 3"
  by (simp add: rangeScore_def negative_rangeBaseline_def input_defs)

text \<open>
  C9, amended. With \<open>rangeImportance\<close> and the weights non-negative and \<open>rangeBaseline\<close>
  positive, and everything else unchanged: a larger \<open>specifications.range.epa\<close> never
  lowers the range sub-score, and a larger \<open>ecoScore\<close> never lowers the score returned:
  whenever the function returns a score for the vehicle, it returns one that is at least
  as large for the vehicle with the larger \<open>ecoScore\<close>, and it returns both whenever the
  preferred type is not the name of an inherited member.
\<close>

theorem C9_monotone:
  "(0 < rangeBaseline (scoring cfg) \<and> 0 \<le> rangeWeight (scoring cfg) \<and>
    (\<forall>r. rangeImportance p = Some r \<longrightarrow> 0 \<le> r) \<and> range_epa (specifications v) \<le> e' \<longrightarrow>
      rangeScore cfg v p
        \<le> rangeScore cfg (v\<lparr>specifications := (specifications v)\<lparr>range_epa := e'\<rparr>\<rparr>) p) \<and>
   (0 \<le> ecoWeight (scoring cfg) \<and> ecoScore v \<le> s' \<longrightarrow>
      (\<forall>n. calculateMatchScore cfg (Some v) (Some p) = Inr n \<longrightarrow>
         (\<exists>n'. calculateMatchScore cfg (Some (v\<lparr>ecoScore := s'\<rparr>)) (Some p) = Inr n' \<and>
               n \<le> n')) \<and>
      (property_key (vehicleType p) \<notin> set object_prototype_members \<longrightarrow>
         (\<exists>n n'. calculateMatchScore cfg (Some v) (Some p) = Inr n \<and>
                  calculateMatchScore cfg (Some (v\<lparr>ecoScore := s'\<rparr>)) (Some p) = Inr n' \<and>
                  n \<le> n')))"
proof (intro conjI impI allI)
  assume "0 < rangeBaseline (scoring cfg) \<and> 0 \<le> rangeWeight (scoring cfg) \<and>
    (\<forall>r. rangeImportance p = Some r \<longrightarrow> 0 \<le> r) \<and> range_epa (specifications v) \<le> e'"
  then show "rangeScore cfg v p
        \<le> rangeScore cfg (v\<lparr>specifications := (specifications v)\<lparr>range_epa := e'\<rparr>\<rparr>) p"
    by (intro rangeScore_mono [where e' = e']) simp_all
next
  fix n
  assume "0 \<le> ecoWeight (scoring cfg) \<and> ecoScore v \<le> s'"
  then have mono: "matchScore cfg v p \<le> matchScore cfg (v\<lparr>ecoScore := s'\<rparr>) p"
    by (intro matchScore_ecoScore_mono) simp_all
  assume "calculateMatchScore cfg (Some v) (Some p) = Inr n"
  with mono
  show "\<exists>n'. calculateMatchScore cfg (Some (v\<lparr>ecoScore := s'\<rparr>)) (Some p) = Inr n' \<and> n \<le> n'"
    by (auto simp: calculateMatchScore_Some split: if_splits)
next
  assume "0 \<le> ecoWeight (scoring cfg) \<and> ecoScore v \<le> s'"
  then have mono: "matchScore cfg v p \<le> matchScore cfg (v\<lparr>ecoScore := s'\<rparr>) p"
    by (intro matchScore_ecoScore_mono) simp_all
  assume "property_key (vehicleType p) \<notin> set object_prototype_members"
  with mono
  show "\<exists>n n'. calculateMatchScore cfg (Some v) (Some p) = Inr n \<and>
               calculateMatchScore cfg (Some (v\<lparr>ecoScore := s'\<rparr>)) (Some p) = Inr n' \<and>
               n \<le> n'"
    by (simp add: calculateMatchScore_returns)
qed

theorem C9_monotone_witness:
  "rangeScore quizConfig city_car quiz_preferences
     \<le> rangeScore quizConfig
         (city_car\<lparr>specifications := (specifications city_car)\<lparr>range_epa := 400\<rparr>\<rparr>)
         quiz_preferences \<and>
   (\<exists>n n'. calculateMatchScore quizConfig (Some city_car) (Some quiz_preferences) = Inr n \<and>
      calculateMatchScore quizConfig (Some (city_car\<lparr>ecoScore := 100\<rparr>)) (Some quiz_preferences)
        = Inr n' \<and> n \<le> n')"
  using C9_monotone [of quizConfig quiz_preferences city_car 400 100]
  by (simp add: input_defs property_key_def object_prototype_members_def)

subsection \<open>The route's function against the model's method\<close>

text \<open>The method has none of the route's guards for absent preference fields.\<close>

lemma Vehicle_calculateMatchScore_absent:
  assumes "enableMatchScoring vcfg"
  shows "budget p = None \<Longrightarrow> Vehicle_calculateMatchScore vcfg v p = Inl TypeError"
    and "budget p \<noteq> None \<Longrightarrow> rangeImportance p = None \<or> techImportance p = None \<Longrightarrow>
           Vehicle_calculateMatchScore vcfg v p = Inr NaN"
  using assms by (auto simp: Vehicle_calculateMatchScore_def split: option.splits)

text \<open>Where the two functions agree under the default weights.\<close>

lemma calculateMatchScore_agree:
  assumes "budgetWeight (scoring cfg) = 30" and "typeWeight (scoring cfg) = 25"
    and "rangeWeight (scoring cfg) = 20" and "techWeight (scoring cfg) = 15"
    and "ecoWeight (scoring cfg) = 10" and "rangeBaseline (scoring cfg) = 300"
    and "matchScoring vcfg =
           \<lparr>matchBudgetWeight = 30, matchTypeWeight = 25, matchRangeWeight = 20,
            matchTechWeight = 15, matchEcoWeight = 10, rangeBaselineEpa = 300\<rparr>"
    and "scores_max vcfg = 100" and "enableMatchScoring vcfg"
    and "budget p = Some b" and "rangeImportance p = Some r" and "techImportance p = Some t"
    and "0 \<le> effectivePrice v"
    and "\<not> (budget_min b \<le> effectivePrice v \<and> budget_max b < effectivePrice v \<and>
            effectivePrice v \<le> budget_max b * overBudgetTolerance (scoring cfg))"
    and "Some (bodyType v) = vehicleType p \<or>
         \<not> includes_opt (similarTypes cfg (property_key (vehicleType p))) (bodyType v)"
    and "property_key (vehicleType p) \<notin> set object_prototype_members"
  shows "\<exists>n. calculateMatchScore cfg (Some v) (Some p) = Inr n \<and>
             Vehicle_calculateMatchScore vcfg v p = Inr (Num n)"
proof -
  have price: "Vehicle_effectivePrice v = effectivePrice v"
    using assms(13) by (rule Vehicle_effectivePrice_eq)
  have b: "budgetScore cfg v p =
      (if Vehicle_effectivePrice v \<ge> budget_min b \<and> Vehicle_effectivePrice v \<le> budget_max b
       then 30
       else if Vehicle_effectivePrice v < budget_min b then 30 * (67 / 100) else 0)"
    using assms(1,10,14) by (auto simp: budgetScore_def price)
  have ty: "typeScore cfg v p = (if Some (bodyType v) = vehicleType p then 25 else 0)"
    using assms(2,15) by (auto simp: typeScore_def)
  have ra: "rangeScore cfg v p = min (range_epa (specifications v) / 300 * r * (20 / 10)) 20"
    using assms(3,6,11) by (simp add: rangeScore_def)
  have te: "techContribution cfg v p = techScore v / 100 * t * (15 / 10)"
    using assms(4,12) by (simp add: techContribution_def)
  have ec: "ecoContribution cfg v = ecoScore v / 100 * 10"
    using assms(5) by (simp add: ecoContribution_def)
  have "Vehicle_calculateMatchScore vcfg v p = Inr (Num (matchScore cfg v p))"
    unfolding matchScore_def b ty ra te ec
    using assms(7,8,9,10,11,12) by (simp add: Vehicle_calculateMatchScore_def)
  then show ?thesis
    using assms(16) by (simp add: calculateMatchScore_returns)
qed

text \<open>
  C10 says that under the default weights the route's function and the model's method
  return the same score wherever both return one. They do not: the method gives no credit
  for a similar body type and none for a price within the over-budget tolerance, both of
  which the route gives. A wagon against a preference for an SUV scores 74 in the route
  and 59 in the method; a sedan at an effective price of 52500 against a budget of 30000
  to 50000 scores 70 in the route and 55 in the method.
\<close>

theorem C10_scores_differ:
  "calculateMatchScore quizConfig (Some wagon) (Some suv_preferences) = Inr 74 \<and>
   Vehicle_calculateMatchScore vehicleConfig wagon suv_preferences = Inr (Num 59) \<and>
   calculateMatchScore quizConfig (Some (sedan 60000)) (Some quiz_preferences) = Inr 70 \<and>
   Vehicle_calculateMatchScore vehicleConfig (sedan 60000) quiz_preferences = Inr (Num 55)"
  by (simp add: calculateMatchScore_Some score_defs js_round_eq_iff input_defs
      Vehicle_effectivePrice_def Vehicle_calculateMatchScore_def vehicleConfig_def)

end
